theory Spec2Isabelle
  imports Main "HOL-Library.AList"
begin

section \<open>Python values held by the state manager\<close>

text \<open>
  \<open>StateManager.state\<close> is whatever \<open>json.load\<close> returned or what the update functions
  stored: JSON-shaped Python values. A \<open>dict\<close> is an association list in insertion
  order with string keys; \<open>map_of\<close> is the lookup and \<open>AList.update\<close> is item
  assignment (an existing key keeps its position, a new key goes to the end).
  A string is the list of the bytes of its UTF-8 form. The payload of \<open>PyFloat\<close> is the
  literal of the number, written back as it was read; the program never computes with a
  float.
\<close>

datatype pyval =
    PyNone
  | PyBool bool
  | PyInt int
  | PyFloat string
  | PyStr string
  | PyList "pyval list"
  | PyDict "(string \<times> pyval) list"

datatype py_error =
    AttributeError
  | TypeError
  | ValueError
  | JSONDecodeError
  | UnicodeEncodeError
  | OSError
  | RequestException

text \<open>\<open>d.get(k, default)\<close>: only a dict has the method.\<close>

fun dict_get :: "pyval \<Rightarrow> string \<Rightarrow> pyval \<Rightarrow> py_error + pyval" where
  "dict_get (PyDict kvs) k dflt = Inr (case map_of kvs k of None \<Rightarrow> dflt | Some v \<Rightarrow> v)"
| "dict_get _ k dflt = Inl AttributeError"

text \<open>\<open>d[k] = v\<close> with a string key: a list, a string and the scalars reject it.\<close>

fun dict_setitem :: "pyval \<Rightarrow> string \<Rightarrow> pyval \<Rightarrow> py_error + pyval" where
  "dict_setitem (PyDict kvs) k v = Inr (PyDict (AList.update k v kvs))"
| "dict_setitem _ k v = Inl TypeError"

text \<open>
  The characters of a string: each byte that is not a continuation byte starts one.
\<close>

definition is_continuation :: "char \<Rightarrow> bool" where
  "is_continuation c \<longleftrightarrow> 128 \<le> (of_char c :: nat) \<and> (of_char c :: nat) < 192"

function code_points :: "string \<Rightarrow> string list" where
  "code_points [] = []"
| "code_points (c # s) =
     (c # takeWhile is_continuation s) # code_points (dropWhile is_continuation s)"
  by pat_completeness auto
termination
  by (relation "measure length") (auto simp: length_dropWhile_le less_Suc_eq_le)

text \<open>
  \<open>set(v)\<close>, as the list of its elements: a list must hold hashable values only, a string
  gives its characters, a dict its keys, and the scalars are not iterable.
\<close>

fun hashable :: "pyval \<Rightarrow> bool" where
  "hashable (PyList _) = False"
| "hashable (PyDict _) = False"
| "hashable _ = True"

fun py_set :: "pyval \<Rightarrow> py_error + pyval list" where
  "py_set (PyList xs) = (if list_all hashable xs then Inr xs else Inl TypeError)"
| "py_set (PyStr s) = Inr (map PyStr (code_points s))"
| "py_set (PyDict kvs) = Inr (map (\<lambda>kv. PyStr (fst kv)) kvs)"
| "py_set _ = Inl TypeError"

text \<open>\<open>len(v)\<close>: defined for dicts, lists and strings.\<close>

fun py_len :: "pyval \<Rightarrow> py_error + nat" where
  "py_len (PyDict kvs) = Inr (length kvs)"
| "py_len (PyList xs) = Inr (length xs)"
| "py_len (PyStr s) = Inr (length (code_points s))"
| "py_len _ = Inl TypeError"

section \<open>Snapshot records\<close>

text \<open>The dictionaries built by the forum client, all of whose values are strings.\<close>

record thread =
  thread_id :: string
  thread_title :: string
  thread_author :: string
  thread_url :: string
  thread_last_post_date :: string

record post =
  post_id :: string
  post_author :: string
  post_content :: string
  post_timestamp :: string
  post_url :: string

section \<open>Console output of the state manager\<close>

text \<open>One constructor for each \<open>print\<close> of \<open>state_manager.py\<close>, with the interpolated values.\<close>

datatype message =
    State_file_not_found
  | Loaded_state nat
  | Error_reading_state_file
  | Starting_with_empty_state
  | Unexpected_error_loading_state
  | State_saved_successfully
  | Error_saving_state
  | Updated_state_for_thread string string int
  | Found_new_threads nat string
  | No_new_threads string
  | Updated_state_for_forum string nat
  | First_time_tracking_thread string
  | Warning_last_post_id_not_found pyval
  | Thread_structure_may_have_changed
  | Found_new_posts nat string
  | No_new_posts string

section \<open>State manager: cursors and change detection\<close>

text \<open>
  Every method takes the current \<open>self.state\<close> first. A method that prints returns its
  output beside its result; a method that assigns returns the new state. \<open>now\<close> is the
  text of \<open>datetime.utcnow().isoformat() + "Z"\<close>.
\<close>

definition get_last_post_id :: "pyval \<Rightarrow> string \<Rightarrow> py_error + pyval" where
  "get_last_post_id state tid =
     (case dict_get state tid (PyDict []) of
        Inl e \<Rightarrow> Inl e
      | Inr thread_state \<Rightarrow> dict_get thread_state ''last_post_id'' PyNone)"

definition thread_cursor :: "string \<Rightarrow> string \<Rightarrow> int \<Rightarrow> pyval" where
  "thread_cursor last_post_id now total_posts =
     PyDict [(''last_post_id'', PyStr last_post_id),
             (''last_checked_at'', PyStr now),
             (''total_posts_seen'', PyInt total_posts)]"

definition update_thread_state ::
  "pyval \<Rightarrow> string \<Rightarrow> string \<Rightarrow> string \<Rightarrow> int \<Rightarrow> py_error + pyval \<times> message list" where
  "update_thread_state state now tid last_post_id total_posts =
     (case dict_setitem state tid (thread_cursor last_post_id now total_posts) of
        Inl e \<Rightarrow> Inl e
      | Inr state' \<Rightarrow> Inr (state', [Updated_state_for_thread tid last_post_id total_posts]))"

definition get_new_threads ::
  "pyval \<Rightarrow> string \<Rightarrow> thread list \<Rightarrow> py_error + thread list \<times> message list" where
  "get_new_threads state forum_id all_threads =
     (if all_threads = [] then Inr ([], [])
      else case dict_get state forum_id (PyDict []) of
        Inl e \<Rightarrow> Inl e
      | Inr forum_state \<Rightarrow>
          (case dict_get forum_state ''seen_thread_ids'' (PyList []) of
             Inl e \<Rightarrow> Inl e
           | Inr ids \<Rightarrow>
               (case py_set ids of
                  Inl e \<Rightarrow> Inl e
                | Inr seen_thread_ids \<Rightarrow>
                    (let new_threads =
                           filter (\<lambda>t. PyStr (thread_id t) \<notin> set seen_thread_ids) all_threads
                     in Inr (new_threads,
                          if new_threads \<noteq> []
                          then [Found_new_threads (length new_threads) forum_id]
                          else [No_new_threads forum_id])))))"

definition forum_cursor :: "string list \<Rightarrow> string \<Rightarrow> pyval" where
  "forum_cursor thread_ids now =
     PyDict [(''seen_thread_ids'', PyList (map PyStr thread_ids)),
             (''last_checked_at'', PyStr now),
             (''total_threads'', PyInt (int (length thread_ids)))]"

definition update_forum_state ::
  "pyval \<Rightarrow> string \<Rightarrow> string \<Rightarrow> string list \<Rightarrow> py_error + pyval \<times> message list" where
  "update_forum_state state now forum_id thread_ids =
     (case dict_setitem state forum_id (forum_cursor thread_ids now) of
        Inl e \<Rightarrow> Inl e
      | Inr state' \<Rightarrow> Inr (state', [Updated_state_for_forum forum_id (length thread_ids)]))"

text \<open>
  The \<open>for i, post in enumerate(all_posts)\<close> loop with its \<open>break\<close>: the index of the first
  post whose id equals the stored one, or the initial \<open>-1\<close>.
\<close>

fun find_last_post_index :: "pyval \<Rightarrow> post list \<Rightarrow> int \<Rightarrow> int" where
  "find_last_post_index last_post_id [] i = -1"
| "find_last_post_index last_post_id (p # ps) i =
     (if PyStr (post_id p) = last_post_id then i
      else find_last_post_index last_post_id ps (i + 1))"

definition get_new_posts ::
  "pyval \<Rightarrow> string \<Rightarrow> post list \<Rightarrow> py_error + post list \<times> message list" where
  "get_new_posts state tid all_posts =
     (if all_posts = [] then Inr ([], [])
      else case get_last_post_id state tid of
        Inl e \<Rightarrow> Inl e
      | Inr last_post_id \<Rightarrow>
          if last_post_id = PyNone
          then Inr ([last all_posts], [First_time_tracking_thread tid])
          else
            (let last_post_index = find_last_post_index last_post_id all_posts 0
             in if last_post_index = -1
                then Inr ([last all_posts],
                          [Warning_last_post_id_not_found last_post_id,
                           Thread_structure_may_have_changed])
                else
                  (let new_posts = drop (nat (last_post_index + 1)) all_posts
                   in Inr (new_posts,
                        if new_posts \<noteq> []
                        then [Found_new_posts (length new_posts) tid]
                        else [No_new_posts tid]))))"

section \<open>The json module as the state manager calls it\<close>

text \<open>
  \<open>save_state\<close> calls \<open>json.dump(self.state, f, indent=2, ensure_ascii=False)\<close> and
  \<open>load_state\<close> calls \<open>json.load(f)\<close>; both files are opened as UTF-8. The two
  functions of the standard library are modelled on texts: a text is the list of the
  bytes of the file. The definitions keep the names of the library's encoder and scanner.
  The interpreter's recursion limit is not modelled.
\<close>

text \<open>
  \<open>sys.get_int_max_str_digits()\<close> at its default: \<open>int.__repr__\<close> and \<open>int(text)\<close>
  raise \<open>ValueError\<close> for an integer of more decimal digits.
\<close>

definition int_max_str_digits :: nat where
  "int_max_str_digits = 4300"

subsection \<open>json.dump\<close>

text \<open>An integer is written by \<open>int.__repr__\<close>: decimal digits after an optional minus.\<close>

definition digit_char :: "nat \<Rightarrow> char" where
  "digit_char d = char_of (48 + d)"

fun show_nat :: "nat \<Rightarrow> string" where
  "show_nat n = (if n < 10 then [digit_char n] else show_nat (n div 10) @ [digit_char (n mod 10)])"

declare show_nat.simps [simp del]


definition int_digits :: "int \<Rightarrow> nat" where
  "int_digits i = length (show_nat (nat \<bar>i\<bar>))"






text \<open>
  What makes the dump raise. A string with a surrogate code point (in the bytes of this
  model: 0xED followed by a byte from 0xA0 to 0xBF) cannot be encoded for the UTF-8 file:
  \<open>UnicodeEncodeError\<close>. An integer of more digits than the limit cannot be written:
  \<open>ValueError\<close>. \<open>dump_error\<close> is the first of these in the order of writing.
\<close>

fun has_surrogate :: "string \<Rightarrow> bool" where
  "has_surrogate [] = False"
| "has_surrogate [a] = False"
| "has_surrogate (a # b # s) =
     ((a = CHR 0xED \<and> 160 \<le> (of_char b :: nat) \<and> (of_char b :: nat) < 192)
      \<or> has_surrogate (b # s))"



subsection \<open>json.load\<close>

text \<open>White space is blank, tab, line feed and carriage return.\<close>

definition is_ws :: "char \<Rightarrow> bool" where
  "is_ws c \<longleftrightarrow> c = CHR '' '' \<or> c = CHR 0x09 \<or> c = CHR 0x0A \<or> c = CHR 0x0D"

definition skip_ws :: "string \<Rightarrow> string" where
  "skip_ws s = dropWhile is_ws s"

definition is_digit :: "char \<Rightarrow> bool" where
  "is_digit c \<longleftrightarrow> 48 \<le> (of_char c :: nat) \<and> (of_char c :: nat) \<le> 57"

text \<open>
  \<open>scanstring\<close> reads a string after its opening quote up to the closing one: a raw
  control character ends it in an error, a backslash starts an escape (a quote, a backslash, a
  slash, one of the letters b, f, n, r, t, or u with four hexadecimal digits), and a high
  surrogate followed by an escaped low surrogate is one code point.
\<close>

definition hex_val :: "char \<Rightarrow> nat option" where
  "hex_val c =
     (let n = (of_char c :: nat) in
      if 48 \<le> n \<and> n \<le> 57 then Some (n - 48)
      else if 97 \<le> n \<and> n \<le> 102 then Some (n - 87)
      else if 65 \<le> n \<and> n \<le> 70 then Some (n - 55)
      else None)"

definition decode_uXXXX :: "char \<Rightarrow> char \<Rightarrow> char \<Rightarrow> char \<Rightarrow> nat option" where
  "decode_uXXXX a b c d =
     (case (hex_val a, hex_val b, hex_val c, hex_val d) of
        (Some x3, Some x2, Some x1, Some x0) \<Rightarrow> Some (((x3 * 16 + x2) * 16 + x1) * 16 + x0)
      | _ \<Rightarrow> None)"

definition backslash :: "char \<Rightarrow> char option" where
  "backslash esc =
     (if esc = CHR 0x22 then Some (CHR 0x22)
      else if esc = CHR 0x5C then Some (CHR 0x5C)
      else if esc = CHR ''/'' then Some (CHR ''/'')
      else if esc = CHR ''b'' then Some (CHR 0x08)
      else if esc = CHR ''f'' then Some (CHR 0x0C)
      else if esc = CHR ''n'' then Some (CHR 0x0A)
      else if esc = CHR ''r'' then Some (CHR 0x0D)
      else if esc = CHR ''t'' then Some (CHR 0x09)
      else None)"

definition utf8 :: "nat \<Rightarrow> string" where
  "utf8 cp =
     (if cp < 0x80 then [char_of cp]
      else if cp < 0x800 then [char_of (0xC0 + cp div 64), char_of (0x80 + cp mod 64)]
      else if cp < 0x10000 then
        [char_of (0xE0 + cp div 4096), char_of (0x80 + cp div 64 mod 64),
         char_of (0x80 + cp mod 64)]
      else
        [char_of (0xF0 + cp div 262144), char_of (0x80 + cp div 4096 mod 64),
         char_of (0x80 + cp div 64 mod 64), char_of (0x80 + cp mod 64)])"

definition cons_result :: "string \<Rightarrow> (string \<times> string) option \<Rightarrow> (string \<times> string) option" where
  "cons_result chunk r = (case r of None \<Rightarrow> None | Some (s, rest) \<Rightarrow> Some (chunk @ s, rest))"

fun scanstring :: "string \<Rightarrow> (string \<times> string) option" where
  "scanstring [] = None"
| "scanstring (c # s) =
     (if c = CHR 0x22 then Some ([], s)
      else if c = CHR 0x5C then
        (case s of
           [] \<Rightarrow> None
         | esc # s1 \<Rightarrow>
             if esc = CHR ''u'' then
               (case s1 of
                  a # b # c' # d # s2 \<Rightarrow>
                    (case decode_uXXXX a b c' d of
                       None \<Rightarrow> None
                     | Some uni \<Rightarrow>
                         if 0xD800 \<le> uni \<and> uni \<le> 0xDBFF then
                           (case s2 of
                              bs # u # a2 # b2 # c2 # d2 # s3 \<Rightarrow>
                                if bs = CHR 0x5C \<and> u = CHR ''u'' then
                                  (case decode_uXXXX a2 b2 c2 d2 of
                                     None \<Rightarrow> None
                                   | Some uni2 \<Rightarrow>
                                       if 0xDC00 \<le> uni2 \<and> uni2 \<le> 0xDFFF
                                       then cons_result
                                              (utf8 (0x10000 + (uni - 0xD800) * 1024 + (uni2 - 0xDC00)))
                                              (scanstring s3)
                                       else cons_result (utf8 uni) (scanstring s2))
                                else cons_result (utf8 uni) (scanstring s2)
                            | _ \<Rightarrow> cons_result (utf8 uni) (scanstring s2))
                         else cons_result (utf8 uni) (scanstring s2))
                | _ \<Rightarrow> None)
             else
               (case backslash esc of
                  None \<Rightarrow> None
                | Some ch \<Rightarrow> cons_result [ch] (scanstring s1)))
      else if (of_char c :: nat) < 32 then None
      else cons_result [c] (scanstring s))"

text \<open>
  A number is an optional minus and either a single 0 or digits that do not start with
  0, then an optional fraction (a point and digits) and an optional exponent (e or E, an
  optional sign, digits): it is a float when it has a fraction or an exponent, an integer
  otherwise.
\<close>

definition int_of_digits :: "string \<Rightarrow> nat" where
  "int_of_digits ds = foldl (\<lambda>acc c. 10 * acc + (of_char c - 48)) 0 ds"

definition parse_int :: "string \<Rightarrow> int" where
  "parse_int s =
     (case s of
        [] \<Rightarrow> 0
      | c # r \<Rightarrow> if c = CHR ''-'' then - int (int_of_digits r) else int (int_of_digits s))"

text \<open>The three groups of the number pattern, each with the text left after it.\<close>

definition match_integer :: "string \<Rightarrow> (string \<times> string) option" where
  "match_integer s =
     (let sign = (case s of [] \<Rightarrow> [] | c # r \<Rightarrow> if c = CHR ''-'' then [c] else []);
          r = drop (length sign) s
      in case r of
           [] \<Rightarrow> None
         | c # r' \<Rightarrow>
             if c = CHR ''0'' then Some (sign @ [c], r')
             else if is_digit c then Some (sign @ takeWhile is_digit r, dropWhile is_digit r)
             else None)"

definition match_frac :: "string \<Rightarrow> string \<times> string" where
  "match_frac s =
     (case s of
        [] \<Rightarrow> ([], s)
      | c # r \<Rightarrow>
          if c = CHR ''.'' \<and> takeWhile is_digit r \<noteq> []
          then (c # takeWhile is_digit r, dropWhile is_digit r)
          else ([], s))"

definition match_exp :: "string \<Rightarrow> string \<times> string" where
  "match_exp s =
     (case s of
        [] \<Rightarrow> ([], s)
      | c # r \<Rightarrow>
          if c = CHR ''e'' \<or> c = CHR ''E'' then
            (let sign = (case r of [] \<Rightarrow> []
                         | c' # r' \<Rightarrow> if c' = CHR ''-'' \<or> c' = CHR ''+'' then [c'] else []);
                 r' = drop (length sign) r
             in if takeWhile is_digit r' \<noteq> []
                then (c # sign @ takeWhile is_digit r', dropWhile is_digit r')
                else ([], s))
          else ([], s))"

text \<open>
  The number at the start of a text, if there is one: a float, or the integer that
  \<open>int\<close> makes of the first group, which raises \<open>ValueError\<close> when the group has more
  digits than the limit.
\<close>

definition digits_of :: "string \<Rightarrow> string" where
  "digits_of integer =
     (case integer of [] \<Rightarrow> [] | c # r \<Rightarrow> if c = CHR ''-'' then r else integer)"

definition match_number :: "string \<Rightarrow> (py_error + pyval \<times> string) option" where
  "match_number s =
     (case match_integer s of
        None \<Rightarrow> None
      | Some (integer, r1) \<Rightarrow>
          (let (frac, r2) = match_frac r1; (exp, r3) = match_exp r2
           in if frac \<noteq> [] \<or> exp \<noteq> []
              then Some (Inr (PyFloat (integer @ frac @ exp), r3))
              else if int_max_str_digits < length (digits_of integer)
              then Some (Inl ValueError)
              else Some (Inr (PyInt (parse_int integer), r3))))"

text \<open>
  \<open>scan_once\<close> reads one value, \<open>JSONArray\<close> the items of a list up to the closing
  bracket, \<open>JSONObject\<close> the members of an object from the opening quote of a key up to
  the closing brace; a repeated key keeps its first position and its last value, as
  \<open>dict(pairs)\<close> does. Each returns the text left. The first argument bounds the number of
  nested calls; \<open>json_load\<close> gives the length of the text, and the round trip of a
  written value is proved with that bound. A text that is not a JSON document gives the
  library's \<open>JSONDecodeError\<close>.
\<close>

definition starts_with :: "string \<Rightarrow> string \<Rightarrow> bool" where
  "starts_with p s \<longleftrightarrow> take (length p) s = p"

definition dict_of_pairs :: "(string \<times> pyval) list \<Rightarrow> (string \<times> pyval) list" where
  "dict_of_pairs pairs = foldl (\<lambda>d kv. AList.update (fst kv) (snd kv) d) [] pairs"

fun scan_once :: "nat \<Rightarrow> string \<Rightarrow> py_error + pyval \<times> string"
  and JSONArray :: "nat \<Rightarrow> string \<Rightarrow> py_error + pyval list \<times> string"
  and JSONObject :: "nat \<Rightarrow> string \<Rightarrow> py_error + (string \<times> pyval) list \<times> string" where
  "scan_once 0 s = Inl JSONDecodeError"
| "scan_once (Suc n) s =
     (case s of
        [] \<Rightarrow> Inl JSONDecodeError
      | nextchar # r \<Rightarrow>
          if nextchar = CHR 0x22 then
            (case scanstring r of
               None \<Rightarrow> Inl JSONDecodeError
             | Some (str, rest) \<Rightarrow> Inr (PyStr str, rest))
          else if nextchar = CHR ''{'' then
            (case skip_ws r of
               [] \<Rightarrow> Inl JSONDecodeError
             | c # r' \<Rightarrow>
                 if c = CHR ''}'' then Inr (PyDict [], r')
                 else
                   (case JSONObject n (c # r') of
                      Inl e \<Rightarrow> Inl e
                    | Inr (pairs, rest) \<Rightarrow> Inr (PyDict (dict_of_pairs pairs), rest)))
          else if nextchar = CHR ''['' then
            (case skip_ws r of
               [] \<Rightarrow> Inl JSONDecodeError
             | c # r' \<Rightarrow>
                 if c = CHR '']'' then Inr (PyList [], r')
                 else
                   (case JSONArray n (c # r') of
                      Inl e \<Rightarrow> Inl e
                    | Inr (values, rest) \<Rightarrow> Inr (PyList values, rest)))
          else if starts_with ''null'' s then Inr (PyNone, drop 4 s)
          else if starts_with ''true'' s then Inr (PyBool True, drop 4 s)
          else if starts_with ''false'' s then Inr (PyBool False, drop 5 s)
          else
            (case match_number s of
               Some res \<Rightarrow> res
             | None \<Rightarrow>
                 if starts_with ''NaN'' s then Inr (PyFloat ''NaN'', drop 3 s)
                 else if starts_with ''Infinity'' s then Inr (PyFloat ''Infinity'', drop 8 s)
                 else if starts_with ''-Infinity'' s then Inr (PyFloat ''-Infinity'', drop 9 s)
                 else Inl JSONDecodeError))"
| "JSONArray 0 s = Inl JSONDecodeError"
| "JSONArray (Suc n) s =
     (case scan_once n s of
        Inl e \<Rightarrow> Inl e
      | Inr (v, r) \<Rightarrow>
          (case skip_ws r of
             [] \<Rightarrow> Inl JSONDecodeError
           | nextchar # r' \<Rightarrow>
               if nextchar = CHR '']'' then Inr ([v], r')
               else if nextchar = CHR '','' then
                 (case JSONArray n (skip_ws r') of
                    Inl e \<Rightarrow> Inl e
                  | Inr (vs, rest) \<Rightarrow> Inr (v # vs, rest))
               else Inl JSONDecodeError))"
| "JSONObject 0 s = Inl JSONDecodeError"
| "JSONObject (Suc n) s =
     (case s of
        [] \<Rightarrow> Inl JSONDecodeError
      | quote # s' \<Rightarrow>
          if quote \<noteq> CHR 0x22 then Inl JSONDecodeError
          else
            (case scanstring s' of
               None \<Rightarrow> Inl JSONDecodeError
             | Some (key, r) \<Rightarrow>
                 (case skip_ws r of
                    [] \<Rightarrow> Inl JSONDecodeError
                  | colon # r1 \<Rightarrow>
                      if colon \<noteq> CHR '':'' then Inl JSONDecodeError
                      else
                        (case scan_once n (skip_ws r1) of
                           Inl e \<Rightarrow> Inl e
                         | Inr (v, r2) \<Rightarrow>
                             (case skip_ws r2 of
                                [] \<Rightarrow> Inl JSONDecodeError
                              | nextchar # r3 \<Rightarrow>
                                  if nextchar = CHR ''}'' then Inr ([(key, v)], r3)
                                  else if nextchar = CHR '','' then
                                    (case JSONObject n (skip_ws r3) of
                                       Inl e \<Rightarrow> Inl e
                                     | Inr (pairs, rest) \<Rightarrow> Inr ((key, v) # pairs, rest))
                                  else Inl JSONDecodeError)))))"

definition json_load :: "string \<Rightarrow> py_error + pyval" where
  "json_load s =
     (case scan_once (length s) (skip_ws s) of
        Inl e \<Rightarrow> Inl e
      | Inr (obj, rest) \<Rightarrow> if skip_ws rest = [] then Inr obj else Inl JSONDecodeError)"

section \<open>The state file\<close>

text \<open>
  The file at \<open>self.state_file\<close>: absent, or present as a file that cannot be opened or
  decoded, as the part of a document that a dump wrote before it raised, or as a text.
  \<open>writable\<close> tells whether the parent directory can be made and the file opened for
  writing.
\<close>

datatype stored_file = Unreadable | Truncated | Text string

record filesystem =
  state_file :: "stored_file option"
  writable :: bool

text \<open>
  The \<open>with open(...) as f: self.state = json.load(f)\<close> of \<open>load_state\<close>. A truncated
  file holds the chunks written before the one that raised, so that a list or a dict is
  left open and a lone string or number is left out: no JSON document.
\<close>

definition read_state_file :: "stored_file \<Rightarrow> py_error + pyval" where
  "read_state_file f =
     (case f of
        Unreadable \<Rightarrow> Inl OSError
      | Truncated \<Rightarrow> Inl JSONDecodeError
      | Text t \<Rightarrow> json_load t)"

text \<open>
  \<open>load_state\<close> returns the value it leaves in \<open>self.state\<close>. The assignment from
  \<open>json.load\<close> comes before the \<open>print\<close> that takes \<open>len(self.state)\<close>; when \<open>len\<close>
  raises, the last handler resets the state.
\<close>

definition load_state :: "filesystem \<Rightarrow> pyval \<times> message list" where
  "load_state fs =
     (case state_file fs of
        None \<Rightarrow> (PyDict [], [State_file_not_found])
      | Some f \<Rightarrow>
          (case read_state_file f of
             Inl e \<Rightarrow>
               if e = JSONDecodeError
               then (PyDict [], [Error_reading_state_file, Starting_with_empty_state])
               else (PyDict [], [Unexpected_error_loading_state])
           | Inr state \<Rightarrow>
               (case py_len state of
                  Inl e \<Rightarrow> (PyDict [], [Unexpected_error_loading_state])
                | Inr n \<Rightarrow> (state, [Loaded_state n]))))"


section \<open>Discord notifier\<close>

text \<open>
  What the webhook does with one request is given from outside. \<open>requests.post\<close> returns
  a response with a status code or raises; on a 429 the notifier reads \<open>retry_after\<close>
  from the body and sleeps (\<open>backoff\<close> is the exception either step raises, if any) and
  posts once more. Only \<open>requests.RequestException\<close> is caught; any other exception leaves
  the method.
\<close>

datatype http_reply = Status nat | Raises py_error

record delivery =
  first_reply :: http_reply
  backoff :: "py_error option"
  retry_reply :: http_reply

definition except_RequestException :: "py_error \<Rightarrow> py_error + bool" where
  "except_RequestException e = (if e = RequestException then Inr False else Inl e)"

text \<open>The body shared by \<open>send_notification\<close> and \<open>send_thread_notification\<close>.\<close>

definition post_embed :: "delivery \<Rightarrow> py_error + bool" where
  "post_embed d =
     (case first_reply d of
        Raises e \<Rightarrow> except_RequestException e
      | Status status_code \<Rightarrow>
          if status_code = 204 then Inr True
          else if status_code = 429 then
            (case backoff d of
               Some e \<Rightarrow> except_RequestException e
             | None \<Rightarrow>
                 (case retry_reply d of
                    Raises e \<Rightarrow> except_RequestException e
                  | Status status_code' \<Rightarrow> Inr (status_code' = 204)))
          else Inr False)"

definition send_notification :: "delivery \<Rightarrow> py_error + bool" where
  "send_notification d = post_embed d"


text \<open>
  What a monitor does to the outside and to the cursor store, in the order it does it.
  \<open>Notify i\<close> is a send attempt for the item with id \<open>i\<close>; \<open>Commit m\<close> is the cursor
  update for monitor \<open>m\<close>.
\<close>

datatype event =
    Login
  | Fetch
  | Notify string
  | Rate_limit_pause
  | Error_notification
  | Commit string

text \<open>
  The loop of the two batch methods over the ids of the items: \<open>i\<close> is the index of
  \<open>enumerate\<close>, \<open>n\<close> is \<open>len\<close> of the whole batch. An exception ends the loop with the
  attempts made so far.
\<close>

fun send_batch ::
  "(delivery \<Rightarrow> py_error + bool) \<Rightarrow> (nat \<Rightarrow> delivery) \<Rightarrow> nat \<Rightarrow> string list \<Rightarrow> nat \<Rightarrow> int
     \<Rightarrow> (py_error + int) \<times> event list" where
  "send_batch send webhook n [] i success_count = (Inr success_count, [])"
| "send_batch send webhook n (x # xs) i success_count =
     (case send (webhook i) of
        Inl e \<Rightarrow> (Inl e, [Notify x])
      | Inr ok \<Rightarrow>
          (let pause = (if (i + 1) mod 4 = 0 \<and> i + 1 < n then [Rate_limit_pause] else []);
               rest = send_batch send webhook n xs (i + 1)
                        (if ok then success_count + 1 else success_count)
           in (fst rest, Notify x # pause @ snd rest)))"

definition send_batch_notifications ::
  "(nat \<Rightarrow> delivery) \<Rightarrow> post list \<Rightarrow> (py_error + int) \<times> event list" where
  "send_batch_notifications webhook posts =
     (if posts = [] then (Inr 0, [])
      else send_batch send_notification webhook (length posts) (map post_id posts) 0 0)"


section \<open>Monitor run orchestrator\<close>

text \<open>
  A monitor's configuration, with an absent string field as the empty string (both are
  false in the checks), and the world it runs in: the environment variables, the result of
  \<open>client.login()\<close>, of the two fetches, the webhook's deliveries by position in the batch,
  and the clock read by the cursor update. The orchestrator's own console output is not
  modelled.
\<close>

record monitor_config =
  cfg_id :: string
  cfg_forum_url :: string
  cfg_section_url :: string
  cfg_thread_url :: string
  cfg_discord_webhook_env :: "string option"

record world =
  getenv :: "string \<Rightarrow> string option"
  login :: "py_error + bool"
  get_forum_threads :: "string \<Rightarrow> py_error + thread list"
  get_thread_posts :: "string \<Rightarrow> py_error + post list"
  webhook :: "nat \<Rightarrow> delivery"
  utcnow :: string

definition webhook_env_of :: "monitor_config \<Rightarrow> string" where
  "webhook_env_of cfg =
     (case cfg_discord_webhook_env cfg of None \<Rightarrow> ''DISCORD_WEBHOOK_URL'' | Some v \<Rightarrow> v)"

definition webhook_url_set :: "world \<Rightarrow> monitor_config \<Rightarrow> bool" where
  "webhook_url_set w cfg =
     (case getenv w (webhook_env_of cfg) of None \<Rightarrow> False | Some url \<Rightarrow> url \<noteq> [])"

text \<open>
  The \<open>except Exception\<close> handler of both monitors: a best-effort error notification, and
  no notification counted. The state is the one reached when the exception was raised.
\<close>

definition handler :: "pyval \<Rightarrow> event list \<Rightarrow> int \<times> pyval \<times> event list" where
  "handler state trace = (0, state, trace @ [Error_notification])"

definition process_thread_monitor ::
  "world \<Rightarrow> pyval \<Rightarrow> monitor_config \<Rightarrow> int \<times> pyval \<times> event list" where
  "process_thread_monitor w state cfg =
     (let tid = cfg_id cfg; thread_url = cfg_thread_url cfg in
      if thread_url = [] then (0, state, [])
      else if \<not> webhook_url_set w cfg then (0, state, [])
      else case login w of
        Inl e \<Rightarrow> handler state [Login]
      | Inr logged_in \<Rightarrow>
          if \<not> logged_in then (0, state, [Login, Error_notification])
          else case get_thread_posts w thread_url of
            Inl e \<Rightarrow> handler state [Login, Fetch]
          | Inr all_posts \<Rightarrow>
              if all_posts = [] then (0, state, [Login, Fetch])
              else case get_new_posts state tid all_posts of
                Inl e \<Rightarrow> handler state [Login, Fetch]
              | Inr (new_posts, out) \<Rightarrow>
                  if new_posts = [] then
                    (case update_thread_state state (utcnow w) tid
                            (post_id (last all_posts)) (int (length all_posts)) of
                       Inl e \<Rightarrow> handler state [Login, Fetch]
                     | Inr (state', out') \<Rightarrow> (0, state', [Login, Fetch, Commit tid]))
                  else
                    (case send_batch_notifications (webhook w) new_posts of
                       (Inl e, sent) \<Rightarrow> handler state ([Login, Fetch] @ sent)
                     | (Inr notifications_sent, sent) \<Rightarrow>
                         (case update_thread_state state (utcnow w) tid
                                 (post_id (last all_posts)) (int (length all_posts)) of
                            Inl e \<Rightarrow> handler state ([Login, Fetch] @ sent)
                          | Inr (state', out') \<Rightarrow>
                              (notifications_sent, state',
                               [Login, Fetch] @ sent @ [Commit tid]))))"



fun is_commit :: "event \<Rightarrow> bool" where
  "is_commit (Commit m) = True"
| "is_commit _ = False"




section \<open>Reading results, stored cursors and storable values\<close>

definition result :: "py_error + 'a \<times> message list \<Rightarrow> py_error + 'a" where
  "result r = (case r of Inl e \<Rightarrow> Inl e | Inr (v, out) \<Rightarrow> Inr v)"


text \<open>
  The thread ids a cursor mapping holds for a forum: the strings of the entry's
  \<open>seen_thread_ids\<close> list, and none when the mapping has no entry for the forum or the
  entry has no such field.
\<close>

definition stored_seen_thread_ids :: "(string \<times> pyval) list \<Rightarrow> string \<Rightarrow> string list \<Rightarrow> bool" where
  "stored_seen_thread_ids cursors forum_id ids \<longleftrightarrow>
     (case map_of cursors forum_id of
        None \<Rightarrow> ids = []
      | Some c \<Rightarrow> dict_get c ''seen_thread_ids'' (PyList []) = Inr (PyList (map PyStr ids)))"

definition is_mapping :: "pyval \<Rightarrow> bool" where
  "is_mapping v = (case v of PyDict kvs \<Rightarrow> True | _ \<Rightarrow> False)"

text \<open>
  The values \<open>json.dump\<close> and \<open>json.load\<close> carry through a file unchanged: proper
  dicts (no key twice) at every level, strings and keys without a surrogate, integers
  within the limit of digits, and no float.
\<close>

fun storable :: "pyval \<Rightarrow> bool"
  and storable_list :: "pyval list \<Rightarrow> bool"
  and storable_dict :: "(string \<times> pyval) list \<Rightarrow> bool" where
  "storable PyNone = True"
| "storable (PyBool b) = True"
| "storable (PyInt i) = (int_digits i \<le> int_max_str_digits)"
| "storable (PyFloat lit) = False"
| "storable (PyStr s) = (\<not> has_surrogate s)"
| "storable (PyList xs) = storable_list xs"
| "storable (PyDict kvs) = (distinct (map fst kvs) \<and> storable_dict kvs)"
| "storable_list [] = True"
| "storable_list (x # xs) = (storable x \<and> storable_list xs)"
| "storable_dict [] = True"
| "storable_dict (kv # kvs) =
     (\<not> has_surrogate (fst kv) \<and> storable (snd kv) \<and> storable_dict kvs)"



section \<open>Example data\<close>

definition example_threads :: "thread list" where
  "example_threads =
     [\<lparr>thread_id = ''t1'', thread_title = ''first'', thread_author = ''ana'',
        thread_url = ''/t1-first'', thread_last_post_date = ''Hoy''\<rparr>,
      \<lparr>thread_id = ''t2'', thread_title = ''second'', thread_author = ''luis'',
        thread_url = ''/t2-second'', thread_last_post_date = ''Ayer''\<rparr>]"

definition example_post :: "string \<Rightarrow> post" where
  "example_post i =
     \<lparr>post_id = i, post_author = ''ana'', post_content = ''hola'',
      post_timestamp = ''Hoy'', post_url = ''/t1-first#'' @ i\<rparr>"

definition example_delivery :: "nat \<Rightarrow> delivery" where
  "example_delivery code = \<lparr>first_reply = Status code, backoff = None, retry_reply = Status code\<rparr>"

definition example_world :: "nat \<Rightarrow> world" where
  "example_world code =
     \<lparr>getenv = (\<lambda>name. if name = ''DISCORD_WEBHOOK_URL'' then Some ''https://discord.test/hook'' else None),
      login = Inr True,
      get_forum_threads = (\<lambda>url. Inr example_threads),
      get_thread_posts = (\<lambda>url. Inr [example_post ''p1'', example_post ''p2'']),
      webhook = (\<lambda>i. example_delivery code),
      utcnow = ''2024-05-02T10:00:00Z''\<rparr>"

definition example_config :: monitor_config where
  "example_config =
     \<lparr>cfg_id = ''m1'', cfg_forum_url = ''https://foro.test'',
      cfg_section_url = ''https://foro.test/f1-general'',
      cfg_thread_url = ''https://foro.test/t1-first'',
      cfg_discord_webhook_env = None\<rparr>"

definition raising_world :: world where
  "raising_world =
     (example_world 429)
       \<lparr>webhook := (\<lambda>i. \<lparr>first_reply = Status 429, backoff = Some TypeError,
                          retry_reply = Status 204\<rparr>)\<rparr>"

section \<open>New threads\<close>

lemma filter_PyStr_notin:
  "filter (\<lambda>t. PyStr (thread_id t) \<notin> set (map PyStr ids)) ts =
   filter (\<lambda>t. thread_id t \<notin> set ids) ts"
  by (rule filter_cong) auto

lemma list_all_hashable_PyStr: "list_all hashable (map PyStr ids)"
  by (induction ids) auto

lemma get_new_threads_of_seen:
  assumes "stored_seen_thread_ids cursors forum_id ids"
  shows "result (get_new_threads (PyDict cursors) forum_id all_threads) =
         Inr (filter (\<lambda>t. thread_id t \<notin> set ids) all_threads)"
proof (cases "all_threads = []")
  case True
  then show ?thesis by (simp add: get_new_threads_def result_def)
next
  case False
  show ?thesis
  proof (cases "map_of cursors forum_id")
    case None
    with assms have "ids = []" by (simp add: stored_seen_thread_ids_def)
    with None False show ?thesis
      by (simp add: get_new_threads_def result_def Let_def)
  next
    case (Some c)
    with assms have c: "dict_get c ''seen_thread_ids'' (PyList []) = Inr (PyList (map PyStr ids))"
      by (simp add: stored_seen_thread_ids_def)
    from Some False c show ?thesis
      by (simp add: get_new_threads_def result_def Let_def list_all_hashable_PyStr
            filter_PyStr_notin del: set_map)
  qed
qed

text \<open>
  C1. For every forum id and every list of fetched threads, \<open>get_new_threads\<close> returns
  exactly the threads whose id is not among the thread ids stored for the forum (none are
  stored when the mapping has no cursor for it), in the order of the fetched list; when
  nothing is stored the result is the whole fetched list.
\<close>

theorem C1_get_new_threads_exact:
  assumes "stored_seen_thread_ids cursors forum_id ids"
  shows "result (get_new_threads (PyDict cursors) forum_id all_threads) =
           Inr (filter (\<lambda>t. thread_id t \<notin> set ids) all_threads)
         \<and> (set ids = {} \<longrightarrow>
              result (get_new_threads (PyDict cursors) forum_id all_threads) = Inr all_threads)"
  using get_new_threads_of_seen [OF assms, of all_threads] by auto

theorem C1_get_new_threads_exact_witness:
  "stored_seen_thread_ids
      [(''f1'', PyDict [(''seen_thread_ids'', PyList [PyStr ''t2''])])] ''f1'' [''t2'']
   \<and> result (get_new_threads
        (PyDict [(''f1'', PyDict [(''seen_thread_ids'', PyList [PyStr ''t2''])])]) ''f1''
        example_threads)
     = Inr [hd example_threads]"
proof -
  have h: "stored_seen_thread_ids
      [(''f1'', PyDict [(''seen_thread_ids'', PyList [PyStr ''t2''])])] ''f1'' [''t2'']"
    by (simp add: stored_seen_thread_ids_def)
  show ?thesis
    using h C1_get_new_threads_exact [OF h, of example_threads]
    by (simp add: example_threads_def)
qed

section \<open>New posts\<close>


lemma find_last_post_index_first:
  assumes "k < length ps" and "PyStr (post_id (ps ! k)) = v"
      and "\<forall>j<k. PyStr (post_id (ps ! j)) \<noteq> v"
  shows "find_last_post_index v ps i = i + int k"
  using assms
proof (induction ps arbitrary: i k)
  case Nil
  then show ?case by simp
next
  case (Cons p ps)
  show ?case
  proof (cases k)
    case 0
    with Cons.prems show ?thesis by simp
  next
    case (Suc k')
    from Cons.prems Suc have head: "PyStr (post_id p) \<noteq> v" by auto
    from Cons.prems Suc have "k' < length ps" and "PyStr (post_id (ps ! k')) = v"
      and "\<forall>j<k'. PyStr (post_id (ps ! j)) \<noteq> v" by auto
    then have "find_last_post_index v ps (i + 1) = (i + 1) + int k'"
      by (rule Cons.IH)
    with head Suc show ?thesis by simp
  qed
qed

text \<open>The stored \<open>last_post_id\<close> is looked up under the thread's own id.\<close>

lemma get_last_post_id_lookup:
  "get_last_post_id (PyDict cursors) tid =
     (case map_of cursors tid of
        None \<Rightarrow> Inr PyNone
      | Some c \<Rightarrow> dict_get c ''last_post_id'' PyNone)"
  by (simp add: get_last_post_id_def split: option.splits)

text \<open>
  C2. For every thread with no stored \<open>last_post_id\<close> (the lookup gives \<open>None\<close>),
  \<open>get_new_posts\<close> returns the one-element list of the last fetched post when the fetched
  list is not empty, and the empty list when it is empty.
\<close>

theorem C2_first_run_baseline:
  assumes "get_last_post_id state tid = Inr PyNone"
  shows "result (get_new_posts state tid all_posts) =
         Inr (if all_posts = [] then [] else [last all_posts])"
  using assms by (simp add: get_new_posts_def result_def)

theorem C2_first_run_baseline_witness:
  "get_last_post_id (PyDict []) ''th'' = Inr PyNone
   \<and> result (get_new_posts (PyDict []) ''th'' [example_post ''p1'', example_post ''p2''])
     = Inr [example_post ''p2'']
   \<and> result (get_new_posts (PyDict []) ''th'' []) = Inr []"
proof -
  have h: "get_last_post_id (PyDict []) ''th'' = Inr PyNone"
    by (simp add: get_last_post_id_def)
  show ?thesis
    using h C2_first_run_baseline [OF h, of "[]"]
      C2_first_run_baseline [OF h, of "[example_post ''p1'', example_post ''p2'']"]
    by simp
qed

text \<open>
  C3. For every thread with a stored \<open>last_post_id\<close> and every non-empty fetched list, if
  the first post whose id equals the stored one is at index \<open>k\<close>, \<open>get_new_posts\<close> returns
  exactly the posts after index \<open>k\<close>, in order; the result is empty when \<open>k\<close> is the last
  index.
\<close>

theorem C3_posts_after_cursor:
  assumes "get_last_post_id state tid = Inr (PyStr last_seen)"
      and "all_posts \<noteq> []"
      and "k < length all_posts"
      and "post_id (all_posts ! k) = last_seen"
      and "\<forall>j<k. post_id (all_posts ! j) \<noteq> last_seen"
  shows "result (get_new_posts state tid all_posts) = Inr (drop (k + 1) all_posts)
         \<and> (k = length all_posts - 1 \<longrightarrow> result (get_new_posts state tid all_posts) = Inr [])"
proof -
  have "find_last_post_index (PyStr last_seen) all_posts 0 = 0 + int k"
    by (rule find_last_post_index_first) (use assms in auto)
  with assms(1,2) have "result (get_new_posts state tid all_posts) = Inr (drop (k + 1) all_posts)"
    by (simp add: get_new_posts_def result_def Let_def nat_add_distrib)
  then show ?thesis by auto
qed

theorem C3_posts_after_cursor_witness:
  "result (get_new_posts (PyDict [(''th'', thread_cursor ''p5'' ''2024-05-01T10:00:00Z'' 3)]) ''th''
      [example_post ''p3'', example_post ''p4'', example_post ''p5'',
       example_post ''p6'', example_post ''p7''])
   = Inr [example_post ''p6'', example_post ''p7'']"
proof -
  let ?ps = "[example_post ''p3'', example_post ''p4'', example_post ''p5'',
              example_post ''p6'', example_post ''p7'']"
  have h1: "get_last_post_id (PyDict [(''th'', thread_cursor ''p5'' ''2024-05-01T10:00:00Z'' 3)]) ''th''
            = Inr (PyStr ''p5'')"
    by (simp add: get_last_post_id_def thread_cursor_def)
  have h2: "?ps \<noteq> []" by simp
  have h3: "2 < length ?ps" by simp
  have h4: "post_id (?ps ! 2) = ''p5''" by (simp add: example_post_def)
  have h5: "\<forall>j<2. post_id (?ps ! j) \<noteq> ''p5''"
    by (simp add: example_post_def less_Suc_eq numeral_2_eq_2)
  show ?thesis
    using C3_posts_after_cursor [OF h1 h2 h3 h4 h5] by simp
qed



section \<open>Cursor updates\<close>

lemma update_forum_state_dict:
  "update_forum_state (PyDict cursors) now forum_id ids =
   Inr (PyDict (AList.update forum_id (forum_cursor ids now) cursors),
        [Updated_state_for_forum forum_id (length ids)])"
  by (simp add: update_forum_state_def)

lemma update_thread_state_dict:
  "update_thread_state (PyDict cursors) now tid last_post_id total_posts =
   Inr (PyDict (AList.update tid (thread_cursor last_post_id now total_posts) cursors),
        [Updated_state_for_thread tid last_post_id total_posts])"
  by (simp add: update_thread_state_def)

lemma stored_after_update:
  "stored_seen_thread_ids (AList.update forum_id (forum_cursor ids now) cursors) forum_id ids'
   \<longleftrightarrow> ids' = ids"
proof -
  have "inj PyStr" by (rule injI) simp
  then have "map PyStr ids = map PyStr ids' \<longleftrightarrow> ids = ids'"
    by (rule inj_map_eq_map)
  then show ?thesis
    by (auto simp: stored_seen_thread_ids_def forum_cursor_def update_conv')
qed

lemma get_new_threads_same_set:
  assumes "stored_seen_thread_ids c1 forum_id ids1"
      and "stored_seen_thread_ids c2 forum_id ids2"
      and "set ids1 = set ids2"
  shows "result (get_new_threads (PyDict c1) forum_id all_threads) =
         result (get_new_threads (PyDict c2) forum_id all_threads)"
  using get_new_threads_of_seen [OF assms(1), of all_threads]
        get_new_threads_of_seen [OF assms(2), of all_threads] assms(3)
  by simp

text \<open>
  C5. For every forum id and every list of thread ids, \<open>update_forum_state\<close> replaces the
  forum's cursor wholesale: whatever the mapping held before, the stored
  \<open>seen_thread_ids\<close> are exactly the given ids. Updating a second time with the same ids
  stores the same ids again, and \<open>get_new_threads\<close> after an update depends only on the
  set of the ids given, not on their order: it returns the fetched threads whose id is not
  among them.
\<close>

theorem C5_update_forum_state_replaces:
  "\<exists>c1 c2.
     result (update_forum_state (PyDict cursors) now forum_id ids) = Inr (PyDict c1)
     \<and> result (update_forum_state (PyDict c1) now' forum_id ids) = Inr (PyDict c2)
     \<and> map_of c1 forum_id = Some (forum_cursor ids now)
     \<and> map_of c2 forum_id = Some (forum_cursor ids now')
     \<and> (\<forall>ids'. stored_seen_thread_ids c1 forum_id ids' \<longleftrightarrow> ids' = ids)
     \<and> (\<forall>ids'. stored_seen_thread_ids c2 forum_id ids' \<longleftrightarrow> ids' = ids)
     \<and> result (get_new_threads (PyDict c1) forum_id all_threads)
         = Inr (filter (\<lambda>t. thread_id t \<notin> set ids) all_threads)
     \<and> (\<forall>other c3. set other = set ids
           \<and> result (update_forum_state (PyDict cursors) now forum_id other) = Inr (PyDict c3)
           \<longrightarrow> result (get_new_threads (PyDict c3) forum_id all_threads)
               = result (get_new_threads (PyDict c1) forum_id all_threads))"
proof -
  let ?c1 = "AList.update forum_id (forum_cursor ids now) cursors"
  let ?c2 = "AList.update forum_id (forum_cursor ids now') ?c1"
  have r1: "result (update_forum_state (PyDict cursors) now forum_id ids) = Inr (PyDict ?c1)"
    by (simp add: update_forum_state_dict result_def)
  have r2: "result (update_forum_state (PyDict ?c1) now' forum_id ids) = Inr (PyDict ?c2)"
    by (simp add: update_forum_state_dict result_def)
  have m1: "map_of ?c1 forum_id = Some (forum_cursor ids now)"
    by (simp add: update_conv')
  have m2: "map_of ?c2 forum_id = Some (forum_cursor ids now')"
    by (simp add: update_conv')
  have s1: "\<forall>ids'. stored_seen_thread_ids ?c1 forum_id ids' \<longleftrightarrow> ids' = ids"
    by (simp add: stored_after_update)
  have s2: "\<forall>ids'. stored_seen_thread_ids ?c2 forum_id ids' \<longleftrightarrow> ids' = ids"
    by (simp add: stored_after_update)
  have g: "result (get_new_threads (PyDict ?c1) forum_id all_threads)
         = Inr (filter (\<lambda>t. thread_id t \<notin> set ids) all_threads)"
    by (rule get_new_threads_of_seen) (simp add: stored_after_update)
  have o: "\<forall>other c3. set other = set ids
           \<and> result (update_forum_state (PyDict cursors) now forum_id other) = Inr (PyDict c3)
           \<longrightarrow> result (get_new_threads (PyDict c3) forum_id all_threads)
               = result (get_new_threads (PyDict ?c1) forum_id all_threads)"
  proof (intro allI impI)
    fix other c3
    assume h: "set other = set ids
           \<and> result (update_forum_state (PyDict cursors) now forum_id other) = Inr (PyDict c3)"
    then have c3: "c3 = AList.update forum_id (forum_cursor other now) cursors"
      by (simp add: update_forum_state_dict result_def)
    show "result (get_new_threads (PyDict c3) forum_id all_threads)
               = result (get_new_threads (PyDict ?c1) forum_id all_threads)"
      unfolding c3
      by (rule get_new_threads_same_set [where ?ids1.0 = other and ?ids2.0 = ids])
         (use h in \<open>simp_all add: stored_after_update\<close>)
  qed
  from r1 r2 m1 m2 s1 s2 g o show ?thesis by blast
qed

theorem C5_update_forum_state_replaces_witness:
  "result (update_forum_state (PyDict [(''f1'', forum_cursor [''t9''] ''2024-05-01T10:00:00Z'')])
      ''2024-05-02T10:00:00Z'' ''f1'' [''t2'', ''t1''])
     = Inr (PyDict [(''f1'', forum_cursor [''t2'', ''t1''] ''2024-05-02T10:00:00Z'')])
   \<and> result (get_new_threads
        (PyDict [(''f1'', forum_cursor [''t2'', ''t1''] ''2024-05-02T10:00:00Z'')])
        ''f1'' example_threads)
     = result (get_new_threads
        (PyDict [(''f1'', forum_cursor [''t1'', ''t2''] ''2024-05-02T10:00:00Z'')])
        ''f1'' example_threads)"
proof -
  let ?old = "[(''f1'', forum_cursor [''t9''] ''2024-05-01T10:00:00Z'')]"
  let ?now = "''2024-05-02T10:00:00Z''"
  from C5_update_forum_state_replaces
    [of ?old ?now "''f1''" "[''t1'', ''t2'']" ?now example_threads]
  obtain c1 c2 where
    c1: "result (update_forum_state (PyDict ?old) ?now ''f1'' [''t1'', ''t2'']) = Inr (PyDict c1)"
    and ord: "\<forall>other c3. set other = set [''t1'', ''t2'']
           \<and> result (update_forum_state (PyDict ?old) ?now ''f1'' other) = Inr (PyDict c3)
           \<longrightarrow> result (get_new_threads (PyDict c3) ''f1'' example_threads)
               = result (get_new_threads (PyDict c1) ''f1'' example_threads)"
    by blast
  have e1: "c1 = [(''f1'', forum_cursor [''t1'', ''t2''] ?now)]"
    using c1 by (simp add: update_forum_state_dict result_def)
  have u: "result (update_forum_state (PyDict ?old) ?now ''f1'' [''t2'', ''t1''])
     = Inr (PyDict [(''f1'', forum_cursor [''t2'', ''t1''] ?now)])"
    by (simp add: update_forum_state_dict result_def)
  have "set [''t2'', ''t1''] = set [''t1'', ''t2'']" by auto
  with ord u have "result (get_new_threads
        (PyDict [(''f1'', forum_cursor [''t2'', ''t1''] ?now)]) ''f1'' example_threads)
      = result (get_new_threads (PyDict c1) ''f1'' example_threads)"
    by blast
  with u e1 show ?thesis by simp
qed

text \<open>
  C10. For every monitor id \<open>m\<close> and every other key \<open>k\<close> of the cursor mapping,
  \<open>update_thread_state\<close> and \<open>update_forum_state\<close> for \<open>m\<close> succeed and leave the entry
  stored under \<open>k\<close> as it was: each update writes the entry of its own monitor id only.
\<close>

theorem C10_updates_frame:
  assumes "k \<noteq> m"
  shows "\<exists>c1 c2.
     result (update_thread_state (PyDict cursors) now m last_post_id total_posts) = Inr (PyDict c1)
     \<and> map_of c1 k = map_of cursors k
     \<and> result (update_forum_state (PyDict cursors) now m thread_ids) = Inr (PyDict c2)
     \<and> map_of c2 k = map_of cursors k"
  using assms
  by (simp add: update_thread_state_dict update_forum_state_dict result_def update_conv')

theorem C10_updates_frame_witness:
  "''f1'' \<noteq> ''th''
   \<and> (\<exists>c1 c2.
     result (update_thread_state (PyDict [(''f1'', forum_cursor [''t1''] ''2024-05-01T10:00:00Z'')])
        ''2024-05-02T10:00:00Z'' ''th'' ''p7'' 7) = Inr (PyDict c1)
     \<and> map_of c1 ''f1'' = Some (forum_cursor [''t1''] ''2024-05-01T10:00:00Z'')
     \<and> result (update_forum_state (PyDict [(''f1'', forum_cursor [''t1''] ''2024-05-01T10:00:00Z'')])
        ''2024-05-02T10:00:00Z'' ''th'' [''t5'']) = Inr (PyDict c2)
     \<and> map_of c2 ''f1'' = Some (forum_cursor [''t1''] ''2024-05-01T10:00:00Z''))"
proof -
  have h: "''f1'' \<noteq> ''th''" by simp
  show ?thesis
    using h C10_updates_frame [OF h,
      of "[(''f1'', forum_cursor [''t1''] ''2024-05-01T10:00:00Z'')]"
         "''2024-05-02T10:00:00Z''" "''p7''" 7 "[''t5'']"]
    by simp
qed

section \<open>The JSON text round trip\<close>




lemma cons_result_Some [simp]: "cons_result a (Some (s, r)) = Some (a @ s, r)"
  by (simp add: cons_result_def)

























































section \<open>Saving and loading the cursor store\<close>

text \<open>
  The mappings the program builds can be stored when the ids and the clock text hold no
  surrogate and the counts are within the limit of digits: the updates keep that.
\<close>

lemma storable_list_PyStr:
  "list_all (\<lambda>i. \<not> has_surrogate i) ids \<Longrightarrow> storable_list (map PyStr ids)"
  by (induction ids) simp_all



lemma storable_thread_cursor:
  assumes "\<not> has_surrogate last_post_id" and "\<not> has_surrogate now"
      and "int_digits total_posts \<le> int_max_str_digits"
  shows "storable (thread_cursor last_post_id now total_posts)"
  using assms by (simp add: thread_cursor_def)

lemma storable_forum_cursor:
  assumes "list_all (\<lambda>i. \<not> has_surrogate i) thread_ids" and "\<not> has_surrogate now"
      and "int_digits (int (length thread_ids)) \<le> int_max_str_digits"
  shows "storable (forum_cursor thread_ids now)"
  using assms by (simp add: forum_cursor_def storable_list_PyStr)

lemma storable_dict_update:
  "storable v \<Longrightarrow> \<not> has_surrogate k \<Longrightarrow> storable_dict al
   \<Longrightarrow> storable_dict (AList.update k v al)"
  by (induction al) auto

lemma updates_storable:
  assumes "storable (PyDict cursors)" and "\<not> has_surrogate m" and "\<not> has_surrogate now"
      and "\<not> has_surrogate last_post_id"
      and "int_digits total_posts \<le> int_max_str_digits"
      and "list_all (\<lambda>i. \<not> has_surrogate i) thread_ids"
      and "int_digits (int (length thread_ids)) \<le> int_max_str_digits"
  shows "\<exists>c1 c2.
     result (update_thread_state (PyDict cursors) now m last_post_id total_posts) = Inr c1
     \<and> storable c1
     \<and> result (update_forum_state (PyDict cursors) now m thread_ids) = Inr c2
     \<and> storable c2"
  using assms
  by (simp add: update_thread_state_dict update_forum_state_dict result_def
        storable_dict_update storable_thread_cursor storable_forum_cursor distinct_update)



text \<open>
  An escaped surrogate in a state file is loaded as a string that holds the surrogate.
\<close>

lemma json_load_escaped_surrogate:
  "json_load [CHR 0x22, CHR 0x5C, CHR ''u'', CHR ''d'', CHR ''8'', CHR ''0'', CHR ''0'', CHR 0x22]
   = Inr (PyStr [CHR 0xED, CHR 0xA0, CHR 0x80])"
  "has_surrogate [CHR 0xED, CHR 0xA0, CHR 0x80]"
proof -
  have "char_of (of_char (CHR 0xED) :: nat) = CHR 0xED"
    and "char_of (of_char (CHR 0xA0) :: nat) = CHR 0xA0"
    and "char_of (of_char (CHR 0x80) :: nat) = CHR 0x80"
    by (rule char_of_char)+
  then have "utf8 0xD800 = [CHR 0xED, CHR 0xA0, CHR 0x80]"
    by (simp add: utf8_def)
  then show "json_load [CHR 0x22, CHR 0x5C, CHR ''u'', CHR ''d'', CHR ''8'', CHR ''0'', CHR ''0'',
                        CHR 0x22]
             = Inr (PyStr [CHR 0xED, CHR 0xA0, CHR 0x80])"
    by (simp add: json_load_def skip_ws_def is_ws_def decode_uXXXX_def hex_val_def
          cons_result_def)
  show "has_surrogate [CHR 0xED, CHR 0xA0, CHR 0x80]" by simp
qed




text \<open>
  What \<open>load_state\<close> does with a missing, an unreadable, a truncated and an unparseable
  file: it returns the empty mapping, with the message of the branch taken.
\<close>

lemma load_state_recovers:
  "load_state \<lparr>state_file = None, writable = w\<rparr> = (PyDict [], [State_file_not_found])"
  "load_state \<lparr>state_file = Some Unreadable, writable = w\<rparr>
     = (PyDict [], [Unexpected_error_loading_state])"
  "load_state \<lparr>state_file = Some Truncated, writable = w\<rparr>
     = (PyDict [], [Error_reading_state_file, Starting_with_empty_state])"
  "json_load t = Inl JSONDecodeError \<Longrightarrow>
   load_state \<lparr>state_file = Some (Text t), writable = w\<rparr>
     = (PyDict [], [Error_reading_state_file, Starting_with_empty_state])"
  by (simp_all add: load_state_def read_state_file_def)

text \<open>
  C7. \<open>load_state\<close> is to return a mapping in every case. The state file below holds the
  JSON text of an empty array: \<open>json.load\<close> parses it to the empty list, \<open>len\<close> of a list
  succeeds, no handler runs, and \<open>load_state\<close> returns the list, which is not a mapping.
\<close>

theorem C7_load_state_returns_list:
  "load_state \<lparr>state_file = Some (Text ''[]''), writable = True\<rparr> = (PyList [], [Loaded_state 0])
   \<and> \<not> is_mapping (fst (load_state \<lparr>state_file = Some (Text ''[]''), writable = True\<rparr>))"
proof -
  have "json_load ''[]'' = Inr (PyList [])"
    by (simp add: json_load_def skip_ws_def is_ws_def)
  then show ?thesis
    by (simp add: load_state_def read_state_file_def is_mapping_def)
qed

section \<open>Order of notification and cursor update\<close>



lemma send_batch_no_commit:
  "\<not> list_ex is_commit (snd (send_batch send wh n xs i c))"
  by (induction xs arbitrary: i c) (auto simp: Let_def split: sum.splits)



lemma send_batch_notifications_no_commit:
  "send_batch_notifications wh ps = (r, sent) \<Longrightarrow> \<not> list_ex is_commit sent"
  using send_batch_no_commit [of send_notification wh "length ps" "map post_id ps" 0 0]
  by (auto simp: send_batch_notifications_def split: if_splits)




section \<open>The cursor update of a monitor run\<close>







lemma thread_monitor_notifier_raises:
  assumes "cfg_thread_url cfg \<noteq> []"
      and "webhook_url_set w cfg"
      and "login w = Inr True"
      and "get_thread_posts w (cfg_thread_url cfg) = Inr all_posts"
      and "all_posts \<noteq> []"
      and "get_new_posts state (cfg_id cfg) all_posts = Inr (new_posts, out)"
      and "new_posts \<noteq> []"
      and "send_batch_notifications (webhook w) new_posts = (Inl e, sent)"
  shows "process_thread_monitor w state cfg
         = (0, state, [Login, Fetch] @ sent @ [Error_notification])"
    and "\<not> list_ex is_commit ([Login, Fetch] @ sent @ [Error_notification])"
  using assms send_batch_notifications_no_commit [OF assms(8)]
  by (simp_all add: process_thread_monitor_def Let_def handler_def)

text \<open>
  C8. The thread cursor is to be committed whenever the fetch succeeded, whatever the
  outcome of sending. The thread monitor below fetched two posts and found one new; the
  webhook answered 429 with a \<open>retry_after\<close> that \<open>time.sleep\<close> rejects, the exception
  left \<open>send_notification\<close> past its handler for request exceptions, and the monitor's own
  handler returned without the cursor update: the store is as it was.
\<close>

theorem C8_notifier_raises_no_commit:
  "login raising_world = Inr True
   \<and> get_thread_posts raising_world (cfg_thread_url example_config)
       = Inr [example_post ''p1'', example_post ''p2'']
   \<and> process_thread_monitor raising_world (PyDict []) example_config
       = (0, PyDict [], [Login, Fetch, Notify ''p2'', Error_notification])"
  by (simp add: raising_world_def example_world_def example_config_def Let_def
        process_thread_monitor_def webhook_url_set_def webhook_env_of_def
        get_new_posts_def get_last_post_id_def send_batch_notifications_def
        send_notification_def post_embed_def except_RequestException_def handler_def
        example_post_def)




end
